theory Spec2Isabelle
  imports Complex_Main "HOL-Library.Monad_Syntax"
begin

section \<open>JavaScript primitives used by the sources\<close>

text \<open>
  A JavaScript \<open>number\<close> that holds a coordinate or a height is modelled by the real number
  it denotes; integer-valued numbers (footprint sizes, rotation states, history indices) are
  modelled by \<open>int\<close>. The model therefore covers finite numbers only, and arithmetic is exact;
  where the source rounds in binary64 the two can differ, which is said at the definitions
  concerned.
\<close>

text \<open>\<open>Math.round\<close>: the nearest integer, a tie going towards plus infinity.\<close>

definition Math_round :: "real \<Rightarrow> real" where
  "Math_round t = of_int \<lfloor>t + 1 / 2\<rfloor>"

text \<open>
  \<open>parseFloat(y.toFixed(2))\<close>: \<open>toFixed\<close> works on the absolute value, takes the integer
  \<open>n\<close> with \<open>n / 100\<close> nearest to it (the larger one on a tie) and restores the sign.
\<close>

definition toFixed2 :: "real \<Rightarrow> real" where
  "toFixed2 y =
     (if y < 0 then - (of_int \<lfloor>(- y) * 100 + 1 / 2\<rfloor> / 100)
      else of_int \<lfloor>y * 100 + 1 / 2\<rfloor> / 100)"

text \<open>The remainder operator \<open>%\<close> on integers: the result takes the sign of the dividend.\<close>

definition js_rem :: "int \<Rightarrow> int \<Rightarrow> int" where
  "js_rem a b = sgn a * (\<bar>a\<bar> mod \<bar>b\<bar>)"

text \<open>\<open>xs[i]\<close>: reading outside the array gives \<open>undefined\<close>, here \<open>None\<close>.\<close>

definition js_index :: "'a list \<Rightarrow> int \<Rightarrow> 'a option" where
  "js_index xs i = (if 0 \<le> i \<and> i < int (length xs) then Some (xs ! nat i) else None)"

text \<open>\<open>xs.slice(0, e)\<close>: a negative end counts from the end of the array.\<close>

definition js_slice0 :: "'a list \<Rightarrow> int \<Rightarrow> 'a list" where
  "js_slice0 xs e =
     (if e < 0 then take (nat (max (int (length xs) + e) 0)) xs else take (nat e) xs)"

section \<open>Data model (types.ts)\<close>

datatype BrickCategory = Basic | Plate | Technic | Slope

text \<open>
  The field \<open>id\<close> of the three interfaces is written \<open>def_id\<close>, \<open>brick_id\<close> and
  \<open>color_id\<close>; an optional \<open>hasHoles\<close> that is absent reads as false.
\<close>

record BrickTypeDefinition =
  def_id :: string
  name :: string
  category :: BrickCategory
  width :: int
  depth :: int
  height :: real
  hasStuds :: bool
  hasHoles :: bool

type_synonym vec3 = "real \<times> real \<times> real"

record PlacedBrick =
  brick_id :: string
  typeId :: string
  position :: vec3
  rotation :: int
  color :: string

record BrickColor =
  color_id :: string
  color_name :: string
  hex :: string

datatype ToolMode = ToolView | ToolPlace | ToolDelete | ToolPaint | ToolRotate

section \<open>Constants (constants.ts)\<close>

definition STUD_SIZE :: real where "STUD_SIZE = 1"
definition BRICK_HEIGHT :: real where "BRICK_HEIGHT = 12 / 10"
definition PLATE_HEIGHT :: real where "PLATE_HEIGHT = 4 / 10"

definition mkColor :: "string \<Rightarrow> string \<Rightarrow> string \<Rightarrow> BrickColor" where
  "mkColor i n h = \<lparr>color_id = i, color_name = n, hex = h\<rparr>"

definition COLORS :: "BrickColor list" where
  "COLORS =
    [mkColor ''red'' ''Bright Red'' ''#ef4444'',
     mkColor ''blue'' ''Bright Blue'' ''#3b82f6'',
     mkColor ''yellow'' ''Bright Yellow'' ''#eab308'',
     mkColor ''green'' ''Dark Green'' ''#15803d'',
     mkColor ''black'' ''Black'' ''#171717'',
     mkColor ''white'' ''White'' ''#f3f4f6'',
     mkColor ''grey'' ''Medium Stone Grey'' ''#9ca3af'',
     mkColor ''orange'' ''Bright Orange'' ''#f97316'',
     mkColor ''purple'' ''Medium Lilac'' ''#a855f7'',
     mkColor ''lime'' ''Lime'' ''#84cc16'']"

definition mkDef ::
  "string \<Rightarrow> string \<Rightarrow> BrickCategory \<Rightarrow> int \<Rightarrow> int \<Rightarrow> real \<Rightarrow> bool \<Rightarrow> bool \<Rightarrow> BrickTypeDefinition"
where
  "mkDef i n c w d h s ho =
     \<lparr>def_id = i, name = n, category = c, width = w, depth = d, height = h,
      hasStuds = s, hasHoles = ho\<rparr>"

definition BRICK_CATALOG :: "BrickTypeDefinition list" where
  "BRICK_CATALOG =
    [mkDef ''brick_1x1'' ''Brick 1x1'' Basic 1 1 1 True False,
     mkDef ''brick_1x2'' ''Brick 1x2'' Basic 1 2 1 True False,
     mkDef ''brick_1x4'' ''Brick 1x4'' Basic 1 4 1 True False,
     mkDef ''brick_2x2'' ''Brick 2x2'' Basic 2 2 1 True False,
     mkDef ''brick_2x4'' ''Brick 2x4'' Basic 2 4 1 True False,
     mkDef ''plate_1x1'' ''Plate 1x1'' Plate 1 1 (33 / 100) True False,
     mkDef ''plate_1x2'' ''Plate 1x2'' Plate 1 2 (33 / 100) True False,
     mkDef ''plate_2x2'' ''Plate 2x2'' Plate 2 2 (33 / 100) True False,
     mkDef ''plate_2x4'' ''Plate 2x4'' Plate 2 4 (33 / 100) True False,
     mkDef ''plate_4x4'' ''Plate 4x4'' Plate 4 4 (33 / 100) True False,
     mkDef ''technic_1x2'' ''Technic Beam 2'' Technic 1 2 1 False True,
     mkDef ''technic_1x4'' ''Technic Beam 4'' Technic 1 4 1 False True,
     mkDef ''technic_1x8'' ''Technic Beam 8'' Technic 1 8 1 False True]"

text \<open>\<open>BRICK_CATALOG.find(b => b.id === i)\<close> and \<open>COLORS.find(c => c.id === i)\<close>.\<close>

definition findDef :: "string \<Rightarrow> BrickTypeDefinition option" where
  "findDef i = find (\<lambda>b. def_id b = i) BRICK_CATALOG"

definition findColor :: "string \<Rightarrow> BrickColor option" where
  "findColor i = find (\<lambda>c. color_id c = i) COLORS"

section \<open>Placement resolver (App.tsx, handlePointerMove)\<close>

text \<open>
  The vertical part of the resolver: snap to \<open>PLATE_HEIGHT\<close>, keep above the ground, clean
  up to two decimals. The quotient and the product are exact here and rounded to binary64
  in the source: the two agree except where the exact quotient lies on a tie of
  \<open>Math.round\<close> (the source computes 0.6 / 0.4 as 1.4999999999999998 and snaps 0.6 to 0.4,
  the exact quotient 1.5 snaps to 0.8), and the rounding error of the product, which
  \<open>toFixed(2)\<close> removes in the source, does not arise here. Nothing below is stated about
  the resolved height.
\<close>

definition snapY :: "real \<Rightarrow> real" where
  "snapY ty =
     (let y = Math_round (ty / PLATE_HEIGHT) * PLATE_HEIGHT;
          y = (if y < 0 then 0 else y)
      in toFixed2 y)"

text \<open>
  The handler receives the hit point and the face normal of the pointer event, and reads
  the selected type and the rotation state. Its result is the argument of \<open>setHoverPos\<close>;
  \<open>None\<close> stands for the exception of reading \<open>depth\<close> or \<open>width\<close> of an undefined
  \<open>currentBrick\<close>, which leaves the hover position as it was. The walk up the parent chain
  that looks for the brick tag does not enter the result and is left out.
\<close>

fun handlePointerMove :: "string \<Rightarrow> int \<Rightarrow> vec3 \<Rightarrow> vec3 \<Rightarrow> vec3 option" where
  "handlePointerMove selectedTypeId rot (px, py, pz) (nx, ny, nz) =
     (let epsilon = 1 / 100;
          tx = px + nx * epsilon;
          ty = py + ny * epsilon;
          tz = pz + nz * epsilon;
          x = Math_round tx;
          z = Math_round tz;
          y = snapY ty
      in case findDef selectedTypeId of
           None \<Rightarrow> None
         | Some currentBrick \<Rightarrow>
             (let isRotated = (js_rem rot 2 \<noteq> 0);
                  effectiveWidth = (if isRotated then depth currentBrick else width currentBrick);
                  effectiveDepth = (if isRotated then width currentBrick else depth currentBrick);
                  finalX = (if js_rem effectiveWidth 2 = 0 then x + 1 / 2 else x);
                  finalZ = (if js_rem effectiveDepth 2 = 0 then z + 1 / 2 else z)
              in Some (finalX, y, finalZ)))"

section \<open>Application state and history (App.tsx, App)\<close>

text \<open>
  The \<open>useState\<close> cells of \<open>App\<close> that the editing operations read or write. The cell
  \<open>rotation\<close> is written \<open>cur_rotation\<close>, the field \<open>rotation\<close> belonging to
  \<open>PlacedBrick\<close>.
\<close>

record AppState =
  bricks :: "PlacedBrick list"
  selectedTypeId :: string
  selectedColorId :: string
  tool :: ToolMode
  cur_rotation :: int
  hoverPos :: vec3
  isSimulating :: bool
  history :: "PlacedBrick list list"
  historyIndex :: int

definition initialState :: AppState where
  "initialState =
     \<lparr>bricks = [], selectedTypeId = def_id (BRICK_CATALOG ! 0), selectedColorId = ''red'',
      tool = ToolPlace, cur_rotation = 0, hoverPos = (0, 0, 0), isSimulating = False,
      history = [], historyIndex = - 1\<rparr>"

definition addToHistory :: "PlacedBrick list \<Rightarrow> AppState \<Rightarrow> AppState" where
  "addToHistory newBricks st =
     (let newHistory = js_slice0 (history st) (historyIndex st + 1) @ [newBricks]
      in st\<lparr>history := newHistory,
            historyIndex := int (length newHistory) - 1,
            bricks := newBricks\<rparr>)"

text \<open>
  \<open>undo\<close> and \<open>redo\<close> read \<open>history[i]\<close>; the result is \<open>None\<close> when that read is
  outside the array, where the source stores \<open>undefined\<close> as the brick list.
\<close>

definition undo :: "AppState \<Rightarrow> AppState option" where
  "undo st =
     (if historyIndex st > 0 then
        (case js_index (history st) (historyIndex st - 1) of
           None \<Rightarrow> None
         | Some snapshot \<Rightarrow> Some (st\<lparr>historyIndex := historyIndex st - 1, bricks := snapshot\<rparr>))
      else if historyIndex st = 0 then Some (st\<lparr>historyIndex := - 1, bricks := []\<rparr>)
      else Some st)"

definition redo :: "AppState \<Rightarrow> AppState option" where
  "redo st =
     (if historyIndex st < int (length (history st)) - 1 then
        (case js_index (history st) (historyIndex st + 1) of
           None \<Rightarrow> None
         | Some snapshot \<Rightarrow> Some (st\<lparr>historyIndex := historyIndex st + 1, bricks := snapshot\<rparr>))
      else Some st)"

text \<open>\<open>COLORS.find(c => c.id === i)?.hex || dflt\<close>; an empty string is falsy.\<close>

definition colorHexOr :: "string \<Rightarrow> string \<Rightarrow> string" where
  "colorHexOr i dflt =
     (case findColor i of
        None \<Rightarrow> dflt
      | Some c \<Rightarrow> (if hex c = [] then dflt else hex c))"

text \<open>The identifier that \<open>uuidv4()\<close> returns is an argument.\<close>

definition handlePlaceBrick :: "string \<Rightarrow> AppState \<Rightarrow> AppState" where
  "handlePlaceBrick newId st =
     (let colorHex = colorHexOr (selectedColorId st) ''#fff'';
          newBrick = \<lparr>brick_id = newId, typeId = selectedTypeId st, position = hoverPos st,
                      rotation = cur_rotation st, color = colorHex\<rparr>
      in addToHistory (bricks st @ [newBrick]) st)"

definition handleBrickClick :: "string \<Rightarrow> AppState \<Rightarrow> AppState" where
  "handleBrickClick brickId st =
     (if tool st = ToolDelete then
        addToHistory (filter (\<lambda>b. brick_id b \<noteq> brickId) (bricks st)) st
      else if tool st = ToolPaint then
        (let colorHex = colorHexOr (selectedColorId st) ''#fff''
         in addToHistory
              (map (\<lambda>b. if brick_id b = brickId then b\<lparr>color := colorHex\<rparr> else b) (bricks st)) st)
      else st)"

definition rotateBrick :: "AppState \<Rightarrow> AppState" where
  "rotateBrick st = st\<lparr>cur_rotation := js_rem (cur_rotation st + 1) 4\<rparr>"

text \<open>The answer to the \<open>confirm\<close> dialogue is an argument.\<close>

definition clearScene :: "bool \<Rightarrow> AppState \<Rightarrow> AppState" where
  "clearScene confirmed st = (if confirmed then addToHistory [] st else st)"

section \<open>Simulation bridge (App.tsx, PhysicsBrick)\<close>

text \<open>
  The body descriptor handed to \<open>useBox\<close>. The hook runs before the component returns
  \<open>null\<close> for an unknown type, so a descriptor is built for every brick; width, depth and
  height fall back to 1 when the type is not in the catalog.
\<close>

record BodyDescriptor =
  mass :: real
  body_position :: vec3
  body_rotation :: vec3
  args :: vec3

definition PhysicsBrick :: "PlacedBrick \<Rightarrow> BodyDescriptor" where
  "PhysicsBrick brick =
     (let dfn = findDef (typeId brick);
          w = (case dfn of Some b \<Rightarrow> of_int (width b) * STUD_SIZE | None \<Rightarrow> 1);
          d = (case dfn of Some b \<Rightarrow> of_int (depth b) * STUD_SIZE | None \<Rightarrow> 1);
          h = (case dfn of Some b \<Rightarrow> height b * BRICK_HEIGHT | None \<Rightarrow> 1);
          isRotated = (js_rem (rotation brick) 2 \<noteq> 0);
          finalW = (if isRotated then d else w);
          finalD = (if isRotated then w else d)
      in case position brick of
           (px, py, pz) \<Rightarrow>
             \<lparr>mass = 1,
              body_position = (px, py + h / 2, pz),
              body_rotation = (0, of_int (rotation brick) * pi / 2, 0),
              args = (finalW - 2 / 100, h, finalD - 2 / 100)\<rparr>)"

text \<open>
  How the physics collaborator places the box of a descriptor: a box of local size
  \<open>(sx, sy, sz)\<close> turned by the angle \<open>ry\<close> about the vertical axis (the only turn a
  descriptor built here has) reaches \<open>|cos ry| sx + |sin ry| sz\<close> along the world X axis
  and \<open>|sin ry| sx + |cos ry| sz\<close> along the world Z axis.
\<close>

definition worldExtent :: "BodyDescriptor \<Rightarrow> vec3" where
  "worldExtent body =
     (case args body of
        (sx, sy, sz) \<Rightarrow>
          (case body_rotation body of
             (rx, ry, rz) \<Rightarrow>
               (\<bar>cos ry\<bar> * sx + \<bar>sin ry\<bar> * sz, sy, \<bar>sin ry\<bar> * sx + \<bar>cos ry\<bar> * sz)))"

section \<open>AI import (geminiService.ts, generateBuildFromPrompt; App.tsx, handleAiBuild)\<close>

text \<open>
  One object of the parsed response. The rotation may be missing; the other fields are
  the ones the response schema requires.
\<close>

record RawItem =
  item_partId :: string
  item_x :: real
  item_y :: real
  item_z :: real
  item_rotation :: "int option"
  item_colorId :: string

text \<open>
  The callback of \<open>rawData.map\<close>, with the identifier that \<open>uuidv4()\<close> returns for the
  record as an argument. \<open>item.rotation || 0\<close> turns a missing rotation, and 0, into 0.
\<close>

definition toBrick :: "string \<Rightarrow> RawItem \<Rightarrow> PlacedBrick" where
  "toBrick newId item =
     (let colr = colorHexOr (item_colorId item) (hex (COLORS ! 0));
          part = (case findDef (item_partId item) of Some b \<Rightarrow> b | None \<Rightarrow> BRICK_CATALOG ! 0)
      in \<lparr>brick_id = newId,
          typeId = def_id part,
          position = (item_x item, item_y item, item_z item),
          rotation = (case item_rotation item of None \<Rightarrow> 0 | Some r \<Rightarrow> (if r = 0 then 0 else r)),
          color = colr\<rparr>)"

text \<open>
  The arguments are the API key of the environment and the outcome of the remote call:
  \<open>None\<close> for a transport or parse failure, otherwise the parsed records, each paired
  with its fresh identifier. The prompt reaches the result only through that outcome.
\<close>

definition generateBuildFromPrompt ::
  "string option \<Rightarrow> (string \<times> RawItem) list option \<Rightarrow> PlacedBrick list option"
where
  "generateBuildFromPrompt apiKey response =
     (case apiKey of
        None \<Rightarrow> None
      | Some k \<Rightarrow>
          (if k = [] then None
           else (case response of
                   None \<Rightarrow> None
                 | Some rawData \<Rightarrow> Some (map (\<lambda>(newId, item). toBrick newId item) rawData))))"

text \<open>
  The handler is asynchronous: the state argument holds the cells as its closure has them,
  those of the render in which the request was started, and the commit writes the brick
  list, the history and the index computed from them, whatever the application holds when
  the response arrives.
\<close>

definition handleAiBuild :: "string \<Rightarrow> PlacedBrick list option \<Rightarrow> AppState \<Rightarrow> AppState" where
  "handleAiBuild aiPrompt generatedBricks st =
     (if aiPrompt = [] then st
      else (case generatedBricks of
              Some generated \<Rightarrow> addToHistory (bricks st @ generated) st
            | None \<Rightarrow> st))"

section \<open>Export and import (App.tsx, exportToFile and importFromFile)\<close>

text \<open>
  The document that \<open>JSON.stringify\<close> writes and \<open>JSON.parse\<close> reads is represented by
  its JSON value; the text encoding of the runtime is not modelled.
\<close>

datatype json =
  JNull | JBool bool | JNum real | JStr string | JArr "json list" | JObj "(string \<times> json) list"

text \<open>\<open>JSON.stringify\<close> of a brick: its own properties in creation order.\<close>

definition brickToJson :: "PlacedBrick \<Rightarrow> json" where
  "brickToJson b =
     (case position b of
        (px, py, pz) \<Rightarrow>
          JObj [(''id'', JStr (brick_id b)),
                (''typeId'', JStr (typeId b)),
                (''position'', JArr [JNum px, JNum py, JNum pz]),
                (''rotation'', JNum (of_int (rotation b))),
                (''color'', JStr (color b))])"

definition exportToFile :: "AppState \<Rightarrow> json" where
  "exportToFile st = JArr (map brickToJson (bricks st))"

text \<open>
  The source casts the parsed value to \<open>PlacedBrick[]\<close> and reads the five properties
  later. The reading functions give \<open>None\<close> for a value that is no array of such records;
  of a key written twice the parsed object holds the last value.
\<close>

definition jsonField :: "string \<Rightarrow> json \<Rightarrow> json option" where
  "jsonField k j = (case j of JObj kvs \<Rightarrow> map_of (rev kvs) k | _ \<Rightarrow> None)"

definition asStr :: "json \<Rightarrow> string option" where
  "asStr j = (case j of JStr s \<Rightarrow> Some s | _ \<Rightarrow> None)"

definition asNum :: "json \<Rightarrow> real option" where
  "asNum j = (case j of JNum r \<Rightarrow> Some r | _ \<Rightarrow> None)"

definition asInt :: "json \<Rightarrow> int option" where
  "asInt j = (case j of JNum r \<Rightarrow> (if of_int \<lfloor>r\<rfloor> = r then Some \<lfloor>r\<rfloor> else None) | _ \<Rightarrow> None)"

definition asVec3 :: "json \<Rightarrow> vec3 option" where
  "asVec3 j =
     (case j of
        JArr js \<Rightarrow>
          (if length js = 3 then
             do { px \<leftarrow> asNum (js ! 0); py \<leftarrow> asNum (js ! 1); pz \<leftarrow> asNum (js ! 2);
                  Some (px, py, pz) }
           else None)
      | _ \<Rightarrow> None)"

definition jsonToBrick :: "json \<Rightarrow> PlacedBrick option" where
  "jsonToBrick j =
     do { i \<leftarrow> jsonField ''id'' j \<bind> asStr;
          t \<leftarrow> jsonField ''typeId'' j \<bind> asStr;
          p \<leftarrow> jsonField ''position'' j \<bind> asVec3;
          r \<leftarrow> jsonField ''rotation'' j \<bind> asInt;
          c \<leftarrow> jsonField ''color'' j \<bind> asStr;
          Some \<lparr>brick_id = i, typeId = t, position = p, rotation = r, color = c\<rparr> }"

definition jsonToBricks :: "json \<Rightarrow> PlacedBrick list option" where
  "jsonToBricks j = (case j of JArr js \<Rightarrow> those (map jsonToBrick js) | _ \<Rightarrow> None)"

text \<open>
  What the file input delivers: no file, a text that \<open>JSON.parse\<close> rejects (the alert,
  state unchanged), or a parsed document.
\<close>

datatype FileInput = NoFile | InvalidText | Document json

text \<open>
  The handler on JavaScript values. The source hands whatever \<open>JSON.parse\<close> returns to
  \<open>addToHistory\<close>, which looks at none of it; so here the brick list and the snapshots
  are JSON values, \<open>rawState\<close> gives the three cells of a typed state as such values, and
  \<open>addToHistoryRaw\<close> is \<open>addToHistory\<close> on them.
\<close>

record RawState =
  raw_bricks :: json
  raw_history :: "json list"
  raw_historyIndex :: int

definition rawState :: "AppState \<Rightarrow> RawState" where
  "rawState st =
     \<lparr>raw_bricks = JArr (map brickToJson (bricks st)),
      raw_history = map (\<lambda>snapshot. JArr (map brickToJson snapshot)) (history st),
      raw_historyIndex = historyIndex st\<rparr>"

definition addToHistoryRaw :: "json \<Rightarrow> RawState \<Rightarrow> RawState" where
  "addToHistoryRaw newBricks r =
     (let newHistory = js_slice0 (raw_history r) (raw_historyIndex r + 1) @ [newBricks]
      in r\<lparr>raw_history := newHistory,
           raw_historyIndex := int (length newHistory) - 1,
           raw_bricks := newBricks\<rparr>)"

definition importFromFileRaw :: "FileInput \<Rightarrow> RawState \<Rightarrow> RawState" where
  "importFromFileRaw f r =
     (case f of
        NoFile \<Rightarrow> r
      | InvalidText \<Rightarrow> r
      | Document loadedBricks \<Rightarrow> addToHistoryRaw loadedBricks r)"

text \<open>
  The same handler read on typed states: defined where the document is an array of brick
  records, and \<open>None\<close> where it is not, the value stored then being the one that
  \<open>importFromFileRaw\<close> gives.
\<close>

definition importFromFile :: "FileInput \<Rightarrow> AppState \<Rightarrow> AppState option" where
  "importFromFile f st =
     (case f of
        NoFile \<Rightarrow> Some st
      | InvalidText \<Rightarrow> Some st
      | Document doc \<Rightarrow>
          (case jsonToBricks doc of
             None \<Rightarrow> None
           | Some loadedBricks \<Rightarrow> Some (addToHistory loadedBricks st)))"

text \<open>
  The invariant of the history record, and the agreement of the brick list with the
  snapshot under the index (the empty list at the sentinel).
\<close>

definition historyOk :: "AppState \<Rightarrow> bool" where
  "historyOk st \<longleftrightarrow> - 1 \<le> historyIndex st \<and> historyIndex st < int (length (history st))"

definition synced :: "AppState \<Rightarrow> bool" where
  "synced st \<longleftrightarrow>
     bricks st = (if historyIndex st = - 1 then [] else history st ! nat (historyIndex st))"

section \<open>Facts about the primitives\<close>

lemma js_rem_2_eq_0_iff: "js_rem a 2 = 0 \<longleftrightarrow> even a"
proof -
  have "\<bar>a\<bar> mod 2 = 0 \<longleftrightarrow> even a"
    by presburger
  moreover have "a = 0 \<Longrightarrow> even a"
    by simp
  ultimately show ?thesis
    unfolding js_rem_def by (auto simp: sgn_if)
qed

lemma frac_Math_round_half: "frac (Math_round t + 1 / 2) = 1 / 2"
  unfolding Math_round_def by (simp add: frac_unique_iff)

lemma Math_round_in_Ints: "Math_round t \<in> \<int>"
  unfolding Math_round_def by simp

section \<open>The claims\<close>

text \<open>
  C1. For every selected part definition and every rotation state, the resolved X has
  fractional part exactly one half when the effective width is even and is an integer when
  the effective width is odd, and the resolved Z obeys the same rule with the effective
  depth; the effective width and depth are the definition's width and depth, exchanged
  when the rotation state is 1 or 3 (90 or 270 degrees).
\<close>

theorem C1_centering_parity:
  assumes "findDef sel = Some d" and "rot \<in> {0, 1, 2, 3}"
  shows "\<exists>x y z. handlePointerMove sel rot p n = Some (x, y, z) \<and>
           (let ew = (if rot = 1 \<or> rot = 3 then depth d else width d);
                ed = (if rot = 1 \<or> rot = 3 then width d else depth d)
            in (even ew \<longrightarrow> frac x = 1 / 2) \<and> (odd ew \<longrightarrow> x \<in> \<int>) \<and>
               (even ed \<longrightarrow> frac z = 1 / 2) \<and> (odd ed \<longrightarrow> z \<in> \<int>))"
proof -
  obtain px py pz where p: "p = (px, py, pz)"
    by (cases p) auto
  obtain nx ny nz where n: "n = (nx, ny, nz)"
    by (cases n) auto
  have rot: "js_rem rot 2 \<noteq> 0 \<longleftrightarrow> rot = 1 \<or> rot = 3"
    using assms(2) by (auto simp: js_rem_2_eq_0_iff)
  show ?thesis
  proof (cases "rot = 1 \<or> rot = 3")
    case True
    with rot have "js_rem rot 2 \<noteq> 0"
      by simp
    with True assms(1) show ?thesis
      by (simp add: p n js_rem_2_eq_0_iff [of "width d"] js_rem_2_eq_0_iff [of "depth d"]
          frac_Math_round_half Math_round_in_Ints Let_def)
  next
    case False
    with rot have "js_rem rot 2 = 0"
      by simp
    with False assms(1) show ?thesis
      by (simp add: p n js_rem_2_eq_0_iff [of "width d"] js_rem_2_eq_0_iff [of "depth d"]
          frac_Math_round_half Math_round_in_Ints Let_def)
  qed
qed

theorem C1_centering_parity_witness:
  "\<exists>x y z. handlePointerMove ''brick_1x2'' 1 (23 / 10, 0, - 14 / 10) (0, 1, 0) = Some (x, y, z) \<and>
     frac x = 1 / 2 \<and> z \<in> \<int>"
proof -
  have d: "findDef ''brick_1x2'' = Some (mkDef ''brick_1x2'' ''Brick 1x2'' Basic 1 2 1 True False)"
    by (simp add: findDef_def BRICK_CATALOG_def mkDef_def)
  have r: "(1::int) \<in> {0, 1, 2, 3}"
    by simp
  show ?thesis
    using C1_centering_parity [OF d r, of "(23 / 10, 0, - 14 / 10)" "(0, 1, 0)"]
    by (simp add: mkDef_def Let_def)
qed

section \<open>History\<close>

lemma js_slice0_take: "- 1 \<le> i \<Longrightarrow> js_slice0 xs (i + 1) = take (nat (i + 1)) xs"
  unfolding js_slice0_def by simp

lemma js_index_nth: "0 \<le> i \<Longrightarrow> i < int (length xs) \<Longrightarrow> js_index xs i = Some (xs ! nat i)"
  unfolding js_index_def by simp

lemma addToHistory_fields:
  assumes "- 1 \<le> historyIndex st"
  shows "history (addToHistory nb st) = take (nat (historyIndex st + 1)) (history st) @ [nb]"
    and "historyIndex (addToHistory nb st) = int (length (history (addToHistory nb st))) - 1"
    and "bricks (addToHistory nb st) = nb"
  using assms unfolding addToHistory_def by (simp_all add: js_slice0_take Let_def)

lemma addToHistory_index:
  assumes "historyOk st"
  shows "historyIndex (addToHistory nb st) = historyIndex st + 1"
proof -
  from assms have "- 1 \<le> historyIndex st" and "nat (historyIndex st + 1) \<le> length (history st)"
    unfolding historyOk_def by linarith+
  then show ?thesis
    by (simp add: addToHistory_fields min_def)
qed

lemma redo_at_end: "int (length (history st)) - 1 \<le> historyIndex st \<Longrightarrow> redo st = Some st"
  unfolding redo_def by simp

lemma undo_place_initial:
  "undo (handlePlaceBrick newId initialState) =
     Some ((handlePlaceBrick newId initialState)\<lparr>historyIndex := - 1, bricks := []\<rparr>)"
  unfolding undo_def handlePlaceBrick_def addToHistory_def initialState_def js_slice0_def
  by (simp add: Let_def)

lemma redo_undo_place_initial:
  "redo ((handlePlaceBrick newId initialState)\<lparr>historyIndex := - 1, bricks := []\<rparr>) =
     Some (handlePlaceBrick newId initialState)"
  unfolding redo_def handlePlaceBrick_def addToHistory_def initialState_def js_slice0_def
    js_index_def
  by (simp add: Let_def)

text \<open>
  C2. \<open>undo\<close> and \<open>redo\<close> move the history index by one and replace the brick list by the
  snapshot at the new index; \<open>undo\<close> at index 0 gives the empty brick list and the sentinel
  index -1; \<open>undo\<close> at the sentinel changes nothing; \<open>redo\<close> at or past the last snapshot
  changes nothing. After a single place in the initial state, \<open>undo\<close> gives the empty brick
  list and index -1, and \<open>redo\<close> after it gives back the state with the one part.
\<close>

theorem C2_undo_redo:
  "(0 < historyIndex st \<and> historyIndex st \<le> int (length (history st)) \<longrightarrow>
      undo st = Some (st\<lparr>historyIndex := historyIndex st - 1,
                          bricks := history st ! nat (historyIndex st - 1)\<rparr>)) \<and>
   (historyIndex st = 0 \<longrightarrow> undo st = Some (st\<lparr>historyIndex := - 1, bricks := []\<rparr>)) \<and>
   (historyIndex st = - 1 \<longrightarrow> undo st = Some st) \<and>
   (- 1 \<le> historyIndex st \<and> historyIndex st < int (length (history st)) - 1 \<longrightarrow>
      redo st = Some (st\<lparr>historyIndex := historyIndex st + 1,
                          bricks := history st ! nat (historyIndex st + 1)\<rparr>)) \<and>
   (int (length (history st)) - 1 \<le> historyIndex st \<longrightarrow> redo st = Some st) \<and>
   length (bricks (handlePlaceBrick newId initialState)) = 1 \<and>
   map_option bricks (undo (handlePlaceBrick newId initialState)) = Some [] \<and>
   map_option historyIndex (undo (handlePlaceBrick newId initialState)) = Some (- 1) \<and>
   Option.bind (undo (handlePlaceBrick newId initialState)) redo =
     Some (handlePlaceBrick newId initialState)"
proof -
  have u1: "0 < historyIndex st \<and> historyIndex st \<le> int (length (history st)) \<longrightarrow>
      undo st = Some (st\<lparr>historyIndex := historyIndex st - 1,
                          bricks := history st ! nat (historyIndex st - 1)\<rparr>)"
    unfolding undo_def by (simp add: js_index_nth)
  have u2: "historyIndex st = 0 \<longrightarrow> undo st = Some (st\<lparr>historyIndex := - 1, bricks := []\<rparr>)"
    unfolding undo_def by simp
  have u3: "historyIndex st = - 1 \<longrightarrow> undo st = Some st"
    unfolding undo_def by simp
  have r1: "- 1 \<le> historyIndex st \<and> historyIndex st < int (length (history st)) - 1 \<longrightarrow>
      redo st = Some (st\<lparr>historyIndex := historyIndex st + 1,
                          bricks := history st ! nat (historyIndex st + 1)\<rparr>)"
    unfolding redo_def by (simp add: js_index_nth)
  have r2: "int (length (history st)) - 1 \<le> historyIndex st \<longrightarrow> redo st = Some st"
    by (simp add: redo_at_end)
  have p1: "length (bricks (handlePlaceBrick newId initialState)) = 1"
    unfolding handlePlaceBrick_def addToHistory_def initialState_def by (simp add: Let_def)
  have p2: "map_option bricks (undo (handlePlaceBrick newId initialState)) = Some []"
    and p3: "map_option historyIndex (undo (handlePlaceBrick newId initialState)) = Some (- 1)"
    by (simp_all add: undo_place_initial)
  have p4: "Option.bind (undo (handlePlaceBrick newId initialState)) redo =
     Some (handlePlaceBrick newId initialState)"
    by (simp add: undo_place_initial redo_undo_place_initial)
  from u1 u2 u3 r1 r2 p1 p2 p3 p4 show ?thesis
    by blast
qed

theorem C2_undo_redo_witness:
  "map_option historyIndex (undo (handlePlaceBrick ''b'' (handlePlaceBrick ''a'' initialState))) =
     Some 0 \<and>
   map_option (map brick_id \<circ> bricks)
     (undo (handlePlaceBrick ''b'' (handlePlaceBrick ''a'' initialState))) = Some [''a''] \<and>
   redo (handlePlaceBrick ''b'' (handlePlaceBrick ''a'' initialState)) =
     Some (handlePlaceBrick ''b'' (handlePlaceBrick ''a'' initialState)) \<and>
   map_option historyIndex (undo (handlePlaceBrick ''a'' initialState)) = Some (- 1) \<and>
   undo ((handlePlaceBrick ''a'' initialState)\<lparr>historyIndex := - 1, bricks := []\<rparr>) =
     Some ((handlePlaceBrick ''a'' initialState)\<lparr>historyIndex := - 1, bricks := []\<rparr>) \<and>
   map_option (map brick_id \<circ> bricks)
     (redo ((handlePlaceBrick ''a'' initialState)\<lparr>historyIndex := - 1, bricks := []\<rparr>)) =
     Some [''a'']"
proof -
  define s1 where "s1 = handlePlaceBrick ''a'' initialState"
  define s2 where "s2 = handlePlaceBrick ''b'' s1"
  define sU where "sU = s1\<lparr>historyIndex := - 1, bricks := []\<rparr>"
  have i1: "historyIndex s1 = 0" and h1: "map (map brick_id) (history s1) = [[''a'']]"
    unfolding s1_def handlePlaceBrick_def addToHistory_def initialState_def js_slice0_def
    by (simp_all add: Let_def)
  have i2: "historyIndex s2 = 1"
    and h2: "map (map brick_id) (history s2) = [[''a''], [''a'', ''b'']]"
    unfolding s2_def s1_def handlePlaceBrick_def addToHistory_def initialState_def js_slice0_def
    by (simp_all add: Let_def)
  from h1 have l1: "length (history s1) = 1"
    by (metis length_map length_Cons list.size(3) One_nat_def)
  from h2 have l2: "length (history s2) = 2"
    by (metis length_map length_Cons list.size(3) numeral_2_eq_2)
  have n1: "map brick_id (history s1 ! 0) = [''a'']"
    using h1 l1 by (metis nth_map nth_Cons_0 zero_less_one)
  have n2: "map brick_id (history s2 ! 0) = [''a'']"
    using h2 l2 by (metis nth_map nth_Cons_0 zero_less_numeral)
  have "0 < historyIndex s2 \<and> historyIndex s2 \<le> int (length (history s2))"
    using i2 l2 by simp
  with C2_undo_redo [of s2]
  have u2: "undo s2 = Some (s2\<lparr>historyIndex := historyIndex s2 - 1,
                               bricks := history s2 ! nat (historyIndex s2 - 1)\<rparr>)"
    by blast
  have "int (length (history s2)) - 1 \<le> historyIndex s2"
    using i2 l2 by simp
  with C2_undo_redo [of s2] have r2: "redo s2 = Some s2"
    by blast
  from C2_undo_redo [of s1] i1 have u1: "undo s1 = Some (s1\<lparr>historyIndex := - 1, bricks := []\<rparr>)"
    by blast
  have iU: "historyIndex sU = - 1" and hU: "history sU = history s1"
    unfolding sU_def by simp_all
  from C2_undo_redo [of sU] iU have uU: "undo sU = Some sU"
    by blast
  have "- 1 \<le> historyIndex sU \<and> historyIndex sU < int (length (history sU)) - 1"
    using iU hU l1 by simp
  with C2_undo_redo [of sU]
  have rU: "redo sU = Some (sU\<lparr>historyIndex := historyIndex sU + 1,
                               bricks := history sU ! nat (historyIndex sU + 1)\<rparr>)"
    by blast
  have a: "map_option historyIndex (undo s2) = Some 0"
    and b: "map_option (map brick_id \<circ> bricks) (undo s2) = Some [''a'']"
    using u2 i2 n2 by simp_all
  have c: "map_option historyIndex (undo s1) = Some (- 1)"
    using u1 by simp
  have d: "map_option (map brick_id \<circ> bricks) (redo sU) = Some [''a'']"
    using rU iU hU n1 by simp
  from a b r2 c uU d show ?thesis
    unfolding s2_def sU_def s1_def by blast
qed



lemma filter_absent_id:
  "brickId \<notin> brick_id ` set bs \<Longrightarrow> filter (\<lambda>b. brick_id b \<noteq> brickId) bs = bs"
  by (induction bs) auto

lemma map_absent_id:
  "brickId \<notin> brick_id ` set bs \<Longrightarrow>
     map (\<lambda>b. if brick_id b = brickId then b\<lparr>color := c\<rparr> else b) bs = bs"
  by (induction bs) auto

lemma undo_after_noop_commit:
  assumes ok: "historyOk st" and sy: "synced st"
  shows "undo (addToHistory (bricks st) st) =
           Some ((addToHistory (bricks st) st)\<lparr>historyIndex := historyIndex st, bricks := bricks st\<rparr>)"
proof -
  let ?s = "addToHistory (bricks st) st"
  from ok have lo: "- 1 \<le> historyIndex st" and hi: "historyIndex st < int (length (history st))"
    unfolding historyOk_def by simp_all
  have idx: "historyIndex ?s = historyIndex st + 1"
    by (rule addToHistory_index [OF ok])
  have hist: "history ?s = take (nat (historyIndex st + 1)) (history st) @ [bricks st]"
    by (rule addToHistory_fields(1) [OF lo])
  show ?thesis
  proof (cases "historyIndex st = - 1")
    case True
    with sy have "bricks st = []"
      unfolding synced_def by simp
    with True idx show ?thesis
      unfolding undo_def by simp
  next
    case False
    with lo have pos: "0 \<le> historyIndex st"
      by simp
    from pos hi have inr: "nat (historyIndex st) < length (take (nat (historyIndex st + 1)) (history st))"
      by simp
    from pos hi have "history ?s ! nat (historyIndex st) = history st ! nat (historyIndex st)"
      unfolding hist by (simp add: nth_append)
    also from sy False have "\<dots> = bricks st"
      unfolding synced_def by simp
    finally have nth: "history ?s ! nat (historyIndex st) = bricks st" .
    from pos hi have "historyIndex st < int (length (history ?s))"
      unfolding hist by (simp add: min_def)
    with pos have "js_index (history ?s) (historyIndex st) = Some (history ?s ! nat (historyIndex st))"
      by (simp add: js_index_nth)
    with nth pos idx show ?thesis
      unfolding undo_def by simp
  qed
qed

text \<open>
  C10. When the clicked identifier belongs to no part of the brick list, the delete tool and
  the paint tool leave the list as it is and still commit it: one snapshot equal to the
  current list is appended after the current index and the index goes up by one. The next
  \<open>undo\<close> then only steps back over that snapshot: it returns the same brick list and the
  index of before the click, instead of the state of before the last real edit.
\<close>

theorem C10_absent_id_commits:
  assumes "brickId \<notin> brick_id ` set (bricks st)"
    and "tool st = ToolDelete \<or> tool st = ToolPaint"
    and "historyOk st" and "synced st"
  shows "bricks (handleBrickClick brickId st) = bricks st \<and>
         history (handleBrickClick brickId st) =
           take (nat (historyIndex st + 1)) (history st) @ [bricks st] \<and>
         historyIndex (handleBrickClick brickId st) = historyIndex st + 1 \<and>
         map_option bricks (undo (handleBrickClick brickId st)) = Some (bricks st) \<and>
         map_option historyIndex (undo (handleBrickClick brickId st)) = Some (historyIndex st)"
proof -
  have click: "handleBrickClick brickId st = addToHistory (bricks st) st"
    using assms(1,2) unfolding handleBrickClick_def
    by (auto simp: filter_absent_id map_absent_id Let_def)
  from assms(3) have lo: "- 1 \<le> historyIndex st"
    unfolding historyOk_def by simp
  show ?thesis
    unfolding click
    using addToHistory_fields [OF lo, of "bricks st"] addToHistory_index [OF assms(3), of "bricks st"]
      undo_after_noop_commit [OF assms(3,4)]
    by simp
qed

theorem C10_absent_id_commits_witness:
  "map (map brick_id)
     (history (handleBrickClick ''zz'' ((handlePlaceBrick ''a'' initialState)\<lparr>tool := ToolDelete\<rparr>))) =
     [[''a''], [''a'']] \<and>
   map_option (map brick_id \<circ> bricks)
     (undo (handleBrickClick ''zz'' ((handlePlaceBrick ''a'' initialState)\<lparr>tool := ToolDelete\<rparr>))) =
     Some [''a'']"
proof -
  define s1 where "s1 = (handlePlaceBrick ''a'' initialState)\<lparr>tool := ToolDelete\<rparr>"
  have b: "map brick_id (bricks s1) = [''a'']" and h: "map (map brick_id) (history s1) = [[''a'']]"
    and i: "historyIndex s1 = 0" and hb: "history s1 = [bricks s1]"
    unfolding s1_def handlePlaceBrick_def addToHistory_def initialState_def js_slice0_def
    by (simp_all add: Let_def)
  have absent: "''zz'' \<notin> brick_id ` set (bricks s1)"
  proof -
    have "brick_id ` set (bricks s1) = set (map brick_id (bricks s1))"
      by simp
    then show ?thesis
      unfolding b by simp
  qed
  have t: "tool s1 = ToolDelete \<or> tool s1 = ToolPaint"
    unfolding s1_def by simp
  have ok: "historyOk s1"
    unfolding historyOk_def using i hb by simp
  have sy: "synced s1"
    unfolding synced_def using i hb by simp
  from C10_absent_id_commits [OF absent t ok sy] i hb b show ?thesis
    unfolding s1_def [symmetric] by auto
qed

section \<open>AI import\<close>

lemma findDef_SomeD: "findDef i = Some d \<Longrightarrow> def_id d = i"
  unfolding findDef_def by (auto simp: find_Some_iff)

lemma COLORS_hex_nonempty: "list_all (\<lambda>c. hex c \<noteq> []) COLORS"
  unfolding COLORS_def mkColor_def by simp

lemma findColor_hex_nonempty: "findColor i = Some c \<Longrightarrow> hex c \<noteq> []"
proof -
  assume "findColor i = Some c"
  then have "c \<in> set COLORS"
    unfolding findColor_def by (auto simp: find_Some_iff)
  with COLORS_hex_nonempty show ?thesis
    by (simp add: list_all_iff)
qed

lemma first_entries:
  "def_id (BRICK_CATALOG ! 0) = ''brick_1x1''" "hex (COLORS ! 0) = ''#ef4444''"
  unfolding BRICK_CATALOG_def COLORS_def mkDef_def mkColor_def by simp_all

text \<open>
  C7. In AI import every response record is converted on its own: a part identifier that
  is not in the catalog is replaced by that of the first catalog entry, a colour identifier
  that is not in the colour table by the first colour, a missing rotation by 0, and known
  values are kept. A response of one record with an unknown part identifier and one valid
  record gives exactly two parts, the first with the fallback type and the second mapped
  as it stands, and both are appended to the brick list.
\<close>

theorem C7_ai_import_fallbacks:
  "brick_id (toBrick u it) = u \<and>
   position (toBrick u it) = (item_x it, item_y it, item_z it) \<and>
   (findDef (item_partId it) = None \<longrightarrow> typeId (toBrick u it) = ''brick_1x1'') \<and>
   (findDef (item_partId it) \<noteq> None \<longrightarrow> typeId (toBrick u it) = item_partId it) \<and>
   (findColor (item_colorId it) = None \<longrightarrow> color (toBrick u it) = ''#ef4444'') \<and>
   (findColor (item_colorId it) = Some c \<longrightarrow> color (toBrick u it) = hex c) \<and>
   (item_rotation it = None \<longrightarrow> rotation (toBrick u it) = 0) \<and>
   (item_rotation it = Some r \<longrightarrow> rotation (toBrick u it) = r) \<and>
   (key \<noteq> [] \<and> aiPrompt \<noteq> [] \<and>
    findDef (item_partId bad) = None \<and> findDef (item_partId good) \<noteq> None \<and>
    findColor (item_colorId good) = Some c \<and> item_rotation good = Some r \<longrightarrow>
      generateBuildFromPrompt (Some key) (Some [(u1, bad), (u2, good)]) =
        Some [toBrick u1 bad,
              \<lparr>brick_id = u2, typeId = item_partId good,
               position = (item_x good, item_y good, item_z good),
               rotation = r, color = hex c\<rparr>] \<and>
      typeId (toBrick u1 bad) = ''brick_1x1'' \<and>
      bricks (handleAiBuild aiPrompt
                (generateBuildFromPrompt (Some key) (Some [(u1, bad), (u2, good)])) st) =
        bricks st @
        [toBrick u1 bad,
         \<lparr>brick_id = u2, typeId = item_partId good,
          position = (item_x good, item_y good, item_z good),
          rotation = r, color = hex c\<rparr>])"
proof -
  have ty_none: "findDef (item_partId x) = None \<Longrightarrow> typeId (toBrick v x) = ''brick_1x1''" for v x
    unfolding toBrick_def by (simp add: first_entries Let_def)
  have ty_some: "findDef (item_partId x) \<noteq> None \<Longrightarrow> typeId (toBrick v x) = item_partId x" for v x
    unfolding toBrick_def by (auto simp: Let_def dest: findDef_SomeD)
  have col_none: "findColor (item_colorId it) = None \<Longrightarrow> color (toBrick u it) = ''#ef4444''"
    unfolding toBrick_def colorHexOr_def by (simp add: first_entries Let_def)
  have col_some: "findColor (item_colorId x) = Some c \<Longrightarrow> color (toBrick v x) = hex c" for v x
    unfolding toBrick_def colorHexOr_def by (simp add: findColor_hex_nonempty Let_def)
  have rot_none: "item_rotation it = None \<Longrightarrow> rotation (toBrick u it) = 0"
    unfolding toBrick_def by (simp add: Let_def)
  have rot_some: "item_rotation x = Some r \<Longrightarrow> rotation (toBrick v x) = r" for v x
    unfolding toBrick_def by (simp add: Let_def)
  have id_pos: "brick_id (toBrick v x) = v"
    "position (toBrick v x) = (item_x x, item_y x, item_z x)" for v x
    unfolding toBrick_def by (simp_all add: Let_def)
  have good: "toBrick u2 good =
      \<lparr>brick_id = u2, typeId = item_partId good,
       position = (item_x good, item_y good, item_z good), rotation = r, color = hex c\<rparr>"
    if "findDef (item_partId good) \<noteq> None" "findColor (item_colorId good) = Some c"
      "item_rotation good = Some r"
    using ty_some [OF that(1), of u2] col_some [OF that(2), of u2] rot_some [OF that(3), of u2]
      id_pos [of u2 good]
    by (cases "toBrick u2 good") simp
  have batch: "generateBuildFromPrompt (Some key) (Some [(u1, bad), (u2, good)]) =
      Some [toBrick u1 bad, toBrick u2 good]" if "key \<noteq> []"
    using that unfolding generateBuildFromPrompt_def by simp
  have merge: "bricks (handleAiBuild aiPrompt (Some out) st) = bricks st @ out"
    if "aiPrompt \<noteq> []" for out
    using that unfolding handleAiBuild_def addToHistory_def by (simp add: Let_def)
  have last: "generateBuildFromPrompt (Some key) (Some [(u1, bad), (u2, good)]) =
        Some [toBrick u1 bad,
              \<lparr>brick_id = u2, typeId = item_partId good,
               position = (item_x good, item_y good, item_z good),
               rotation = r, color = hex c\<rparr>] \<and>
      typeId (toBrick u1 bad) = ''brick_1x1'' \<and>
      bricks (handleAiBuild aiPrompt
                (generateBuildFromPrompt (Some key) (Some [(u1, bad), (u2, good)])) st) =
        bricks st @
        [toBrick u1 bad,
         \<lparr>brick_id = u2, typeId = item_partId good,
          position = (item_x good, item_y good, item_z good),
          rotation = r, color = hex c\<rparr>]"
    if "key \<noteq> []" "aiPrompt \<noteq> []" "findDef (item_partId bad) = None"
      "findDef (item_partId good) \<noteq> None" "findColor (item_colorId good) = Some c"
      "item_rotation good = Some r"
    using batch [OF that(1)] good [OF that(4,5,6)] ty_none [OF that(3), of u1] merge [OF that(2)]
    by simp
  from ty_none ty_some col_none col_some rot_none rot_some id_pos last show ?thesis
    by blast
qed

theorem C7_ai_import_fallbacks_witness:
  "generateBuildFromPrompt (Some ''key'')
     (Some [(''u1'', \<lparr>item_partId = ''wheel_9x9'', item_x = 0, item_y = 0, item_z = 0,
                      item_rotation = None, item_colorId = ''pink''\<rparr>),
            (''u2'', \<lparr>item_partId = ''plate_2x2'', item_x = 1 / 2, item_y = 12 / 10, item_z = 1 / 2,
                      item_rotation = Some 1, item_colorId = ''blue''\<rparr>)]) =
   Some [\<lparr>brick_id = ''u1'', typeId = ''brick_1x1'', position = (0, 0, 0), rotation = 0,
          color = ''#ef4444''\<rparr>,
         \<lparr>brick_id = ''u2'', typeId = ''plate_2x2'', position = (1 / 2, 12 / 10, 1 / 2), rotation = 1,
          color = ''#3b82f6''\<rparr>]"
proof -
  define bad where "bad = \<lparr>item_partId = ''wheel_9x9'', item_x = 0, item_y = 0, item_z = 0,
    item_rotation = None, item_colorId = ''pink''\<rparr>"
  define good where "good = \<lparr>item_partId = ''plate_2x2'', item_x = 1 / 2, item_y = 12 / 10,
    item_z = 1 / 2, item_rotation = Some 1, item_colorId = ''blue''\<rparr>"
  have b1: "findDef (item_partId bad) = None"
    unfolding bad_def findDef_def BRICK_CATALOG_def mkDef_def by simp
  have b2: "findColor (item_colorId bad) = None"
    unfolding bad_def findColor_def COLORS_def mkColor_def by simp
  have b3: "item_rotation bad = None"
    unfolding bad_def by simp
  have g1: "findDef (item_partId good) \<noteq> None"
    unfolding good_def findDef_def BRICK_CATALOG_def mkDef_def by simp
  have g2: "findColor (item_colorId good) = Some (mkColor ''blue'' ''Bright Blue'' ''#3b82f6'')"
    unfolding good_def findColor_def COLORS_def mkColor_def by simp
  have g3: "item_rotation good = Some 1"
    unfolding good_def by simp
  have k: "''key'' \<noteq> []" "''car'' \<noteq> []"
    by simp_all
  have fields: "brick_id (toBrick ''u1'' bad) = ''u1''"
    "position (toBrick ''u1'' bad) = (item_x bad, item_y bad, item_z bad)"
    "typeId (toBrick ''u1'' bad) = ''brick_1x1''"
    "color (toBrick ''u1'' bad) = ''#ef4444''"
    "rotation (toBrick ''u1'' bad) = 0"
    using C7_ai_import_fallbacks [of "''u1''" bad] b1 b2 b3 by blast+
  then have first: "toBrick ''u1'' bad =
      \<lparr>brick_id = ''u1'', typeId = ''brick_1x1'', position = (0, 0, 0), rotation = 0,
       color = ''#ef4444''\<rparr>"
    by (cases "toBrick ''u1'' bad") (simp add: bad_def)
  from C7_ai_import_fallbacks [of _ _ "mkColor ''blue'' ''Bright Blue'' ''#3b82f6''" 1 "''key''"
      "''car''" bad good "''u1''" "''u2''"] k b1 g1 g2 g3
  have "generateBuildFromPrompt (Some ''key'') (Some [(''u1'', bad), (''u2'', good)]) =
        Some [toBrick ''u1'' bad,
              \<lparr>brick_id = ''u2'', typeId = item_partId good,
               position = (item_x good, item_y good, item_z good),
               rotation = 1, color = hex (mkColor ''blue'' ''Bright Blue'' ''#3b82f6'')\<rparr>]"
    by blast
  then show ?thesis
    unfolding first unfolding bad_def good_def mkColor_def by simp
qed

section \<open>Export and import\<close>

lemma jsonToBrick_brickToJson: "jsonToBrick (brickToJson b) = Some b"
proof -
  obtain px py pz where p: "position b = (px, py, pz)"
    by (cases "position b") auto
  have flds: "jsonField ''id'' (brickToJson b) = Some (JStr (brick_id b))"
    "jsonField ''typeId'' (brickToJson b) = Some (JStr (typeId b))"
    "jsonField ''position'' (brickToJson b) = Some (JArr [JNum px, JNum py, JNum pz])"
    "jsonField ''rotation'' (brickToJson b) = Some (JNum (of_int (rotation b)))"
    "jsonField ''color'' (brickToJson b) = Some (JStr (color b))"
    unfolding jsonField_def brickToJson_def p by simp_all
  have vec: "asVec3 (JArr [JNum px, JNum py, JNum pz]) = Some (px, py, pz)"
    unfolding asVec3_def asNum_def by simp
  have int: "asInt (JNum (of_int (rotation b))) = Some (rotation b)"
    unfolding asInt_def by simp
  have "jsonToBrick (brickToJson b) =
      Some \<lparr>brick_id = brick_id b, typeId = typeId b, position = position b,
            rotation = rotation b, color = color b\<rparr>"
    unfolding jsonToBrick_def flds by (simp add: vec int asStr_def p)
  then show ?thesis
    by simp
qed

lemma jsonToBricks_roundtrip: "jsonToBricks (JArr (map brickToJson bs)) = Some bs"
proof -
  have "those (map jsonToBrick (map brickToJson bs)) = Some bs"
    by (induction bs) (simp_all add: jsonToBrick_brickToJson)
  then show ?thesis
    unfolding jsonToBricks_def by simp
qed

text \<open>
  C9. For every state, importing the document that export writes gives a brick list
  identical to the exported one, field for field, whatever state the import starts from.
\<close>

theorem C9_export_import_roundtrip:
  "jsonToBricks (exportToFile st) = Some (bricks st) \<and>
   importFromFile (Document (exportToFile st)) st' = Some (addToHistory (bricks st) st') \<and>
   map_option bricks (importFromFile (Document (exportToFile st)) st') = Some (bricks st)"
proof -
  have a: "jsonToBricks (exportToFile st) = Some (bricks st)"
    unfolding exportToFile_def by (rule jsonToBricks_roundtrip)
  then have b: "importFromFile (Document (exportToFile st)) st' = Some (addToHistory (bricks st) st')"
    unfolding importFromFile_def by simp
  have "bricks (addToHistory (bricks st) st') = bricks st"
    unfolding addToHistory_def by (simp add: Let_def)
  with a b show ?thesis
    by simp
qed

theorem C9_export_import_roundtrip_witness:
  "map_option bricks
     (importFromFile
        (Document (exportToFile
           (initialState\<lparr>bricks :=
              [\<lparr>brick_id = ''a'', typeId = ''brick_1x1'', position = (2, 0, - 1), rotation = 0,
                color = ''#ef4444''\<rparr>,
               \<lparr>brick_id = ''b'', typeId = ''brick_2x2'', position = (5 / 2, 4 / 10, - 1 / 2),
                rotation = 3, color = ''#3b82f6''\<rparr>]\<rparr>)))
        initialState) =
   Some [\<lparr>brick_id = ''a'', typeId = ''brick_1x1'', position = (2, 0, - 1), rotation = 0,
          color = ''#ef4444''\<rparr>,
         \<lparr>brick_id = ''b'', typeId = ''brick_2x2'', position = (5 / 2, 4 / 10, - 1 / 2),
          rotation = 3, color = ''#3b82f6''\<rparr>]"
proof -
  define bs where "bs =
     [\<lparr>brick_id = ''a'', typeId = ''brick_1x1'', position = (2, 0, - 1), rotation = 0,
       color = ''#ef4444''\<rparr>,
      \<lparr>brick_id = ''b'', typeId = ''brick_2x2'', position = (5 / 2, 4 / 10, - 1 / 2),
       rotation = 3, color = ''#3b82f6''\<rparr>]"
  have "map_option bricks
      (importFromFile (Document (exportToFile (initialState\<lparr>bricks := bs\<rparr>))) initialState) =
      Some (bricks (initialState\<lparr>bricks := bs\<rparr>))"
    using C9_export_import_roundtrip [of "initialState\<lparr>bricks := bs\<rparr>" initialState] by blast
  then have "map_option bricks
      (importFromFile (Document (exportToFile (initialState\<lparr>bricks := bs\<rparr>))) initialState) =
      Some bs"
    by simp
  then show ?thesis
    unfolding bs_def .
qed

section \<open>Simulation bridge\<close>

lemma PhysicsBrick_fields:
  assumes "findDef (typeId b) = Some d" and "position b = (px, py, pz)"
  shows "body_position (PhysicsBrick b) = (px, py + height d * BRICK_HEIGHT / 2, pz)"
    and "args (PhysicsBrick b) =
           (of_int (if odd (rotation b) then depth d else width d) * STUD_SIZE - 2 / 100,
            height d * BRICK_HEIGHT,
            of_int (if odd (rotation b) then width d else depth d) * STUD_SIZE - 2 / 100)"
    and "body_rotation (PhysicsBrick b) = (0, of_int (rotation b) * pi / 2, 0)"
  using assms unfolding PhysicsBrick_def by (simp_all add: Let_def js_rem_2_eq_0_iff)

lemma quarter_turn_odd:
  assumes "odd r"
  shows "\<bar>cos (of_int r * pi / 2)\<bar> = 0" and "\<bar>sin (of_int r * pi / 2)\<bar> = 1"
proof -
  have c: "cos (of_int r * pi / 2) = 0"
    using assms by (auto simp: cos_zero_iff_int)
  have "(sin (of_int r * pi / 2))\<^sup>2 + (cos (of_int r * pi / 2))\<^sup>2 = 1"
    by (rule sin_cos_squared_add)
  with c have "(sin (of_int r * pi / 2))\<^sup>2 = 1"
    by simp
  then have "sin (of_int r * pi / 2) = 1 \<or> sin (of_int r * pi / 2) = - 1"
    by (simp add: power2_eq_1_iff)
  then show "\<bar>sin (of_int r * pi / 2)\<bar> = 1"
    by auto
  from c show "\<bar>cos (of_int r * pi / 2)\<bar> = 0"
    by simp
qed

lemma quarter_turn_even:
  assumes "even r"
  shows "\<bar>sin (of_int r * pi / 2)\<bar> = 0" and "\<bar>cos (of_int r * pi / 2)\<bar> = 1"
proof -
  have s: "sin (of_int r * pi / 2) = 0"
    using assms by (auto simp: sin_zero_iff_int)
  have "(sin (of_int r * pi / 2))\<^sup>2 + (cos (of_int r * pi / 2))\<^sup>2 = 1"
    by (rule sin_cos_squared_add)
  with s have "(cos (of_int r * pi / 2))\<^sup>2 = 1"
    by simp
  then have "cos (of_int r * pi / 2) = 1 \<or> cos (of_int r * pi / 2) = - 1"
    by (simp add: power2_eq_1_iff)
  then show "\<bar>cos (of_int r * pi / 2)\<bar> = 1"
    by auto
  from s show "\<bar>sin (of_int r * pi / 2)\<bar> = 0"
    by simp
qed

text \<open>
  Whatever the rotation, the box of the descriptor extends along the world axes by the
  unrotated width and depth of the definition: for an odd rotation the sizes are exchanged
  in \<open>args\<close> and exchanged back by the quarter turn of the body.
\<close>

lemma worldExtent_PhysicsBrick:
  assumes "findDef (typeId b) = Some d"
  shows "worldExtent (PhysicsBrick b) =
           (of_int (width d) * STUD_SIZE - 2 / 100, height d * BRICK_HEIGHT,
            of_int (depth d) * STUD_SIZE - 2 / 100)"
proof -
  obtain px py pz where p: "position b = (px, py, pz)"
    by (cases "position b") auto
  note f = PhysicsBrick_fields(2,3) [OF assms p]
  show ?thesis
  proof (cases "odd (rotation b)")
    case True
    with f quarter_turn_odd [OF True] show ?thesis
      unfolding worldExtent_def by simp
  next
    case False
    then have "even (rotation b)"
      by simp
    with f quarter_turn_even [of "rotation b"] show ?thesis
      unfolding worldExtent_def by simp
  qed
qed

text \<open>
  C6. For the 1x2 brick placed with rotation 1 at (0.5, 0, 0), the descriptor has the
  centre height 0 + 1.2 / 2 and the box (2 - 0.02, 1.2, 1 - 0.02), the effective width 2 and
  depth 1 of that rotation, and it also turns the body by a quarter turn; so along the world
  axes the collider measures (1 - 0.02, 1.2, 2 - 0.02), the footprint of the brick that is
  not rotated, and not the effective footprint.
\<close>

theorem C6_collider_double_swap:
  "body_position (PhysicsBrick \<lparr>brick_id = ''a'', typeId = ''brick_1x2'', position = (1 / 2, 0, 0),
       rotation = 1, color = ''#ef4444''\<rparr>) = (1 / 2, 0 + 1 * (12 / 10) / 2, 0) \<and>
   args (PhysicsBrick \<lparr>brick_id = ''a'', typeId = ''brick_1x2'', position = (1 / 2, 0, 0),
       rotation = 1, color = ''#ef4444''\<rparr>) = (2 - 2 / 100, 12 / 10, 1 - 2 / 100) \<and>
   body_rotation (PhysicsBrick \<lparr>brick_id = ''a'', typeId = ''brick_1x2'', position = (1 / 2, 0, 0),
       rotation = 1, color = ''#ef4444''\<rparr>) = (0, pi / 2, 0) \<and>
   worldExtent (PhysicsBrick \<lparr>brick_id = ''a'', typeId = ''brick_1x2'', position = (1 / 2, 0, 0),
       rotation = 1, color = ''#ef4444''\<rparr>) = (1 - 2 / 100, 12 / 10, 2 - 2 / 100)"
proof -
  define b where "b = \<lparr>brick_id = ''a'', typeId = ''brick_1x2'', position = (1 / 2, 0, 0),
       rotation = 1, color = ''#ef4444''\<rparr>"
  have d: "findDef (typeId b) = Some (mkDef ''brick_1x2'' ''Brick 1x2'' Basic 1 2 1 True False)"
    unfolding b_def by (simp add: findDef_def BRICK_CATALOG_def mkDef_def)
  have p: "position b = (1 / 2, 0, 0)" and r: "rotation b = 1"
    unfolding b_def by simp_all
  have "body_position (PhysicsBrick b) = (1 / 2, 0 + 1 * (12 / 10) / 2, 0)"
    and "args (PhysicsBrick b) = (2 - 2 / 100, 12 / 10, 1 - 2 / 100)"
    and "body_rotation (PhysicsBrick b) = (0, pi / 2, 0)"
    using PhysicsBrick_fields [OF d p] r
    by (simp_all add: mkDef_def STUD_SIZE_def BRICK_HEIGHT_def)
  moreover have "worldExtent (PhysicsBrick b) = (1 - 2 / 100, 12 / 10, 2 - 2 / 100)"
    using worldExtent_PhysicsBrick [OF d]
    by (simp add: mkDef_def STUD_SIZE_def BRICK_HEIGHT_def)
  ultimately show ?thesis
    unfolding b_def by simp
qed

section \<open>Imports and the invariants of placed bricks\<close>

text \<open>
  C4. An AI response with a record of rotation 7 becomes, after the import from the initial
  state, a brick list whose one brick has rotation 7, which is not in {0, 1, 2, 3}: the
  conversion writes \<open>item.rotation || 0\<close> and checks no range. The rotate button, the
  other source of rotations, wraps from 3 to 0.
\<close>

theorem C4_import_rotation_unchecked:
  "map rotation
     (bricks (handleAiBuild ''car''
        (generateBuildFromPrompt (Some ''key'')
           (Some [(''u1'', \<lparr>item_partId = ''brick_2x4'', item_x = 0, item_y = 0, item_z = 0,
                            item_rotation = Some 7, item_colorId = ''red''\<rparr>)]))
        initialState)) = [7] \<and>
   (7 :: int) \<notin> {0, 1, 2, 3} \<and>
   cur_rotation (rotateBrick (initialState\<lparr>cur_rotation := 3\<rparr>)) = 0"
  by (simp add: handleAiBuild_def generateBuildFromPrompt_def toBrick_def addToHistory_def
      initialState_def rotateBrick_def js_rem_def Let_def)

lemma importFromFileRaw_stores: "raw_bricks (importFromFileRaw (Document doc) r) = doc"
  unfolding importFromFileRaw_def addToHistoryRaw_def by (simp add: Let_def)

text \<open>Where the typed reading of the handler is defined, it is the reading of the raw one.\<close>

lemma importFromFile_reads_raw:
  assumes "importFromFile (Document doc) st = Some st'"
  shows "jsonToBricks (raw_bricks (importFromFileRaw (Document doc) (rawState st))) =
           Some (bricks st')"
    and "raw_historyIndex (importFromFileRaw (Document doc) (rawState st)) = historyIndex st'"
proof -
  from assms obtain loaded where l: "jsonToBricks doc = Some loaded"
    and s: "st' = addToHistory loaded st"
    unfolding importFromFile_def by (auto split: option.splits)
  show "jsonToBricks (raw_bricks (importFromFileRaw (Document doc) (rawState st))) =
           Some (bricks st')"
    unfolding importFromFileRaw_stores l s addToHistory_def by (simp add: Let_def)
  show "raw_historyIndex (importFromFileRaw (Document doc) (rawState st)) = historyIndex st'"
    unfolding s importFromFileRaw_def addToHistoryRaw_def addToHistory_def rawState_def
      js_slice0_def
    by (simp add: Let_def)
qed

text \<open>
  C8. On import no record is dropped from the batch, not even one that breaks an invariant
  of placed bricks (a rotation outside {0, 1, 2, 3}, a malformed position). File import
  stores the parsed document as it is, so that every record of it, and with it every valid
  record, is in the stored array at its place; AI import appends one brick for every record
  of the response, in the order of the response.
\<close>

theorem C8_import_keeps_records:
  "raw_bricks (importFromFileRaw (Document doc) r) = doc \<and>
   (i < length js \<and> jsonToBrick (js ! i) = Some b \<longrightarrow>
      (\<exists>out. raw_bricks (importFromFileRaw (Document (JArr js)) r) = JArr out \<and>
             length out = length js \<and> jsonToBrick (out ! i) = Some b)) \<and>
   (aiPrompt \<noteq> [] \<and> key \<noteq> [] \<longrightarrow>
      bricks (handleAiBuild aiPrompt (generateBuildFromPrompt (Some key) (Some rawData)) st) =
        bricks st @ map (\<lambda>(newId, item). toBrick newId item) rawData \<and>
      map brick_id (map (\<lambda>(newId, item). toBrick newId item) rawData) = map fst rawData)"
proof -
  have a: "raw_bricks (importFromFileRaw (Document doc) r) = doc"
    by (rule importFromFileRaw_stores)
  have b: "\<exists>out. raw_bricks (importFromFileRaw (Document (JArr js)) r) = JArr out \<and>
             length out = length js \<and> jsonToBrick (out ! i) = Some b"
    if "jsonToBrick (js ! i) = Some b"
    using that by (simp add: importFromFileRaw_stores)
  have c: "bricks (handleAiBuild aiPrompt (generateBuildFromPrompt (Some key) (Some rawData)) st) =
        bricks st @ map (\<lambda>(newId, item). toBrick newId item) rawData"
    if "aiPrompt \<noteq> []" "key \<noteq> []"
    using that unfolding handleAiBuild_def generateBuildFromPrompt_def addToHistory_def
    by (simp add: Let_def)
  have d: "map brick_id (map (\<lambda>(newId, item). toBrick newId item) rawData) = map fst rawData"
    by (induction rawData) (auto simp: toBrick_def Let_def)
  from a b c d show ?thesis
    by blast
qed

theorem C8_import_keeps_records_witness:
  "(\<exists>out. raw_bricks (importFromFileRaw
       (Document (JArr
          [JObj [(''id'', JStr ''a''), (''typeId'', JStr ''brick_2x4''),
                 (''position'', JArr [JNum (1 / 2), JNum 0]),
                 (''rotation'', JNum 0), (''color'', JStr ''#ef4444'')],
           JObj [(''id'', JStr ''b''), (''typeId'', JStr ''brick_1x1''),
                 (''position'', JArr [JNum 3, JNum 0, JNum 3]),
                 (''rotation'', JNum 0), (''color'', JStr ''#3b82f6'')]]))
       (rawState initialState)) = JArr out \<and>
     length out = 2 \<and>
     jsonToBrick (out ! 1) =
       Some \<lparr>brick_id = ''b'', typeId = ''brick_1x1'', position = (3, 0, 3), rotation = 0,
             color = ''#3b82f6''\<rparr>) \<and>
   map brick_id
     (bricks (handleAiBuild ''car''
        (generateBuildFromPrompt (Some ''key'')
           (Some [(''u1'', \<lparr>item_partId = ''brick_2x4'', item_x = 0, item_y = 0, item_z = 0,
                            item_rotation = Some 7, item_colorId = ''red''\<rparr>),
                  (''u2'', \<lparr>item_partId = ''brick_1x1'', item_x = 0, item_y = 12 / 10, item_z = 0,
                            item_rotation = None, item_colorId = ''blue''\<rparr>)]))
        initialState)) = [''u1'', ''u2'']"
proof -
  define js where "js =
     [JObj [(''id'', JStr ''a''), (''typeId'', JStr ''brick_2x4''),
            (''position'', JArr [JNum (1 / 2), JNum 0]),
            (''rotation'', JNum 0), (''color'', JStr ''#ef4444'')],
      JObj [(''id'', JStr ''b''), (''typeId'', JStr ''brick_1x1''),
            (''position'', JArr [JNum 3, JNum 0, JNum 3]),
            (''rotation'', JNum 0), (''color'', JStr ''#3b82f6'')]]"
  define good where "good = \<lparr>brick_id = ''b'', typeId = ''brick_1x1'', position = (3, 0, 3),
     rotation = 0, color = ''#3b82f6''\<rparr>"
  define rawData where "rawData =
     [(''u1'', \<lparr>item_partId = ''brick_2x4'', item_x = 0, item_y = 0, item_z = 0,
               item_rotation = Some 7, item_colorId = ''red''\<rparr>),
      (''u2'', \<lparr>item_partId = ''brick_1x1'', item_x = 0, item_y = 12 / 10, item_z = 0,
               item_rotation = None, item_colorId = ''blue''\<rparr>)]"
  have i: "1 < length js"
    unfolding js_def by simp
  have g: "jsonToBrick (js ! 1) = Some good"
    unfolding js_def good_def
    by (simp add: jsonToBrick_def jsonField_def asStr_def asNum_def asInt_def asVec3_def)
  have p: "''car'' \<noteq> [] \<and> ''key'' \<noteq> []"
    by simp
  note inst = C8_import_keeps_records [of _ "rawState initialState" 1 js good "''car''" "''key''"
      rawData initialState]
  from inst i g have stored: "\<exists>out. raw_bricks (importFromFileRaw (Document (JArr js))
      (rawState initialState)) = JArr out \<and> length out = length js \<and>
      jsonToBrick (out ! 1) = Some good"
    by blast
  from inst p have "bricks (handleAiBuild ''car''
        (generateBuildFromPrompt (Some ''key'') (Some rawData)) initialState) =
      bricks initialState @ map (\<lambda>(newId, item). toBrick newId item) rawData"
    and "map brick_id (map (\<lambda>(newId, item). toBrick newId item) rawData) = map fst rawData"
    by blast+
  then have ai: "map brick_id (bricks (handleAiBuild ''car''
        (generateBuildFromPrompt (Some ''key'') (Some rawData)) initialState)) = map fst rawData"
    by (simp add: initialState_def)
  have l: "length js = 2"
    unfolding js_def by simp
  from stored l have "\<exists>out. raw_bricks (importFromFileRaw (Document (JArr js))
      (rawState initialState)) = JArr out \<and> length out = 2 \<and>
      jsonToBrick (out ! 1) = Some good"
    by simp
  moreover have "map fst rawData = [''u1'', ''u2'']"
    unfolding rawData_def by simp
  with ai have "map brick_id (bricks (handleAiBuild ''car''
        (generateBuildFromPrompt (Some ''key'') (Some rawData)) initialState)) = [''u1'', ''u2'']"
    by simp
  ultimately show ?thesis
    unfolding js_def good_def rawData_def by blast
qed

theorem C8_record_not_dropped_counterexample:
  "raw_bricks (importFromFileRaw
     (Document (JArr
        [JObj [(''id'', JStr ''a''), (''typeId'', JStr ''brick_2x4''),
               (''position'', JArr [JNum (1 / 2), JNum 0, JNum (1 / 2)]),
               (''rotation'', JNum 7), (''color'', JStr ''#ef4444'')],
         JObj [(''id'', JStr ''c''), (''typeId'', JStr ''brick_2x4''),
               (''position'', JArr [JNum (1 / 2), JNum 0]),
               (''rotation'', JNum 0), (''color'', JStr ''#ef4444'')],
         JObj [(''id'', JStr ''b''), (''typeId'', JStr ''brick_1x1''),
               (''position'', JArr [JNum 3, JNum 0, JNum 3]),
               (''rotation'', JNum 0), (''color'', JStr ''#3b82f6'')]]))
     (rawState initialState)) =
   JArr
     [JObj [(''id'', JStr ''a''), (''typeId'', JStr ''brick_2x4''),
            (''position'', JArr [JNum (1 / 2), JNum 0, JNum (1 / 2)]),
            (''rotation'', JNum 7), (''color'', JStr ''#ef4444'')],
      JObj [(''id'', JStr ''c''), (''typeId'', JStr ''brick_2x4''),
            (''position'', JArr [JNum (1 / 2), JNum 0]),
            (''rotation'', JNum 0), (''color'', JStr ''#ef4444'')],
      JObj [(''id'', JStr ''b''), (''typeId'', JStr ''brick_1x1''),
            (''position'', JArr [JNum 3, JNum 0, JNum 3]),
            (''rotation'', JNum 0), (''color'', JStr ''#3b82f6'')]] \<and>
   map_option rotation
     (jsonToBrick
        (JObj [(''id'', JStr ''a''), (''typeId'', JStr ''brick_2x4''),
               (''position'', JArr [JNum (1 / 2), JNum 0, JNum (1 / 2)]),
               (''rotation'', JNum 7), (''color'', JStr ''#ef4444'')])) = Some 7 \<and>
   (7 :: int) \<notin> {0, 1, 2, 3} \<and>
   map rotation
     (bricks (handleAiBuild ''car''
        (generateBuildFromPrompt (Some ''key'')
           (Some [(''u1'', \<lparr>item_partId = ''brick_2x4'', item_x = 0, item_y = 0, item_z = 0,
                            item_rotation = Some 7, item_colorId = ''red''\<rparr>),
                  (''u2'', \<lparr>item_partId = ''brick_1x1'', item_x = 0, item_y = 12 / 10, item_z = 0,
                            item_rotation = Some 0, item_colorId = ''blue''\<rparr>)]))
        initialState)) = [7, 0]"
  by (simp add: importFromFileRaw_def addToHistoryRaw_def jsonToBrick_def jsonField_def
      asStr_def asNum_def asInt_def asVec3_def handleAiBuild_def generateBuildFromPrompt_def
      toBrick_def addToHistory_def initialState_def Let_def)

end
